theory Spec2Isabelle
  imports Complex_Main "HOL-Library.Word" "HOL-Library.Sublist" "HOL-Library.Multiset"
begin

unbundle bit_operations_syntax

section \<open>Numbers\<close>

text \<open>
  The program computes with JavaScript numbers. Counts are natural numbers, scores and
  time stamps are integers, and quotients are exact rationals.  The three non-finite
  results a division can produce are written out, since HOL's \<open>x / 0\<close> is \<open>0\<close> and the
  program's is \<open>Infinity\<close> or \<open>NaN\<close>.  Rounding of the binary floating-point format is
  not modelled: every quotient is exact.
\<close>

datatype jsnum = Num rat | PosInf | NegInf | NaN

definition js_div :: "rat \<Rightarrow> rat \<Rightarrow> jsnum" where
  "js_div a b =
     (if b \<noteq> 0 then Num (a / b)
      else if a > 0 then PosInf else if a < 0 then NegInf else NaN)"

fun js_mul :: "jsnum \<Rightarrow> rat \<Rightarrow> jsnum" where
  "js_mul (Num a) w = Num (a * w)"
| "js_mul PosInf w = (if w > 0 then PosInf else if w < 0 then NegInf else NaN)"
| "js_mul NegInf w = (if w > 0 then NegInf else if w < 0 then PosInf else NaN)"
| "js_mul NaN w = NaN"

fun js_ge :: "jsnum \<Rightarrow> rat \<Rightarrow> bool" where
  "js_ge (Num a) b = (a \<ge> b)"
| "js_ge PosInf b = True"
| "js_ge NegInf b = False"
| "js_ge NaN b = False"

text \<open>\<open>Math.round\<close> rounds to the nearest integer, halves upwards.\<close>

definition Math_round :: "rat \<Rightarrow> int" where
  "Math_round x = \<lfloor>x + 1 / 2\<rfloor>"

section \<open>Proficiency tiers (\<open>calculateProficiency\<close>)\<close>

datatype proficiency = Familiar | Intermediate | Advanced | Expert

fun tier_rank :: "proficiency \<Rightarrow> nat" where
  "tier_rank Familiar = 0"
| "tier_rank Intermediate = 1"
| "tier_rank Advanced = 2"
| "tier_rank Expert = 3"

definition calculateProficiency :: "nat \<Rightarrow> nat \<Rightarrow> rat \<Rightarrow> proficiency" where
  "calculateProficiency repoCount totalRepos weight =
     (let ratio = js_mul (js_div (of_nat repoCount) (of_nat totalRepos)) weight in
      if js_ge ratio (1 / 2) then Expert
      else if js_ge ratio (3 / 10) then Advanced
      else if js_ge ratio (3 / 20) then Intermediate
      else Familiar)"

text \<open>
  The step function as the specification words it: expert from 0.5, advanced from 0.3,
  intermediate from 0.15, familiar below.
\<close>

definition spec_tier :: "rat \<Rightarrow> proficiency" where
  "spec_tier ratio =
     (if ratio \<ge> 1 / 2 then Expert
      else if ratio \<ge> 3 / 10 then Advanced
      else if ratio \<ge> 3 / 20 then Intermediate
      else Familiar)"

section \<open>Strings\<close>

text \<open>
  A string is a list of characters; a character stands for the code unit with its number,
  so the strings of the model are those whose code units are below 256.
  \<open>toLowerCase\<close> moves the capital letters of that range (A to Z, and the accented
  capitals 192 to 222 except the multiplication sign 215) up by 32; \<open>trim\<close> removes the
  white space of that range (tab, line feed, vertical tab, form feed, carriage return,
  space, no-break space) from both ends.
\<close>

definition charCode :: "char \<Rightarrow> nat" where
  "charCode c = of_char c"

definition toLowerCase_char :: "char \<Rightarrow> char" where
  "toLowerCase_char c =
     (let n = charCode c in
      if (65 \<le> n \<and> n \<le> 90) \<or> (192 \<le> n \<and> n \<le> 222 \<and> n \<noteq> 215)
      then char_of (n + 32) else c)"

definition toLowerCase :: "string \<Rightarrow> string" where
  "toLowerCase s = map toLowerCase_char s"



text \<open>\<open>s.includes(t)\<close> on strings: \<open>t\<close> occurs in \<open>s\<close> as a contiguous piece.\<close>

definition str_includes :: "string \<Rightarrow> string \<Rightarrow> bool" where
  "str_includes s t = sublist t s"

text \<open>\<open>s.split(sep)\<close> for a one-character separator; the empty string gives one empty piece.\<close>

fun split :: "char \<Rightarrow> string \<Rightarrow> string list" where
  "split sep [] = [[]]"
| "split sep (c # cs) =
     (if c = sep then [] # split sep cs
      else (case split sep cs of
              [] \<Rightarrow> [[c]]
            | w # ws \<Rightarrow> (c # w) # ws))"

section \<open>Objects and sets of the host language\<close>

text \<open>
  An object used as a dictionary is an association list in insertion order with distinct
  keys: \<open>obj[k]\<close> is \<open>map_of obj k\<close>, and the assignment \<open>obj[k] = v\<close> replaces the value
  in place when the key is there and appends the pair otherwise.  (Keys are taken not to
  be canonical array indices and not to be names inherited from the object prototype.)
  A \<open>Set\<close> is a duplicate-free list in insertion order.
\<close>

fun obj_set :: "'k \<Rightarrow> 'v \<Rightarrow> ('k \<times> 'v) list \<Rightarrow> ('k \<times> 'v) list" where
  "obj_set k v [] = [(k, v)]"
| "obj_set k v (p # ps) = (if fst p = k then (k, v) # ps else p # obj_set k v ps)"

definition set_add :: "'a \<Rightarrow> 'a list \<Rightarrow> 'a list" where
  "set_add x xs = (if x \<in> set xs then xs else xs @ [x])"

text \<open>
  \<open>Array.prototype.sort\<close> with the comparator \<open>(a, b) => key b - key a\<close> is a stable sort
  by descending key.
\<close>

definition sort_desc :: "('a \<Rightarrow> nat) \<Rightarrow> 'a list \<Rightarrow> 'a list" where
  "sort_desc key xs = sort_key (\<lambda>x. - int (key x)) xs"

section \<open>The fixed tables of the profile builder\<close>

record framework_info =
  fw_category :: string
  fw_name :: string
  fw_weight :: rat

definition fw :: "string \<Rightarrow> string \<Rightarrow> rat \<Rightarrow> framework_info" where
  "fw c n w = \<lparr>fw_category = c, fw_name = n, fw_weight = w\<rparr>"

definition FRAMEWORK_CATEGORIES :: "(string \<times> framework_info) list" where
  "FRAMEWORK_CATEGORIES =
    [(''react'', fw ''frontend'' ''React'' (15 / 10)),
     (''vue'', fw ''frontend'' ''Vue.js'' (13 / 10)),
     (''angular'', fw ''frontend'' ''Angular'' (13 / 10)),
     (''svelte'', fw ''frontend'' ''Svelte'' (12 / 10)),
     (''nextjs'', fw ''frontend'' ''Next.js'' (14 / 10)),
     (''nuxt'', fw ''frontend'' ''Nuxt.js'' (13 / 10)),
     (''gatsby'', fw ''frontend'' ''Gatsby'' (12 / 10)),
     (''nodejs-backend'', fw ''backend'' ''Node.js Backend'' (14 / 10)),
     (''nestjs'', fw ''backend'' ''NestJS'' (13 / 10)),
     (''express'', fw ''backend'' ''Express.js'' (12 / 10)),
     (''fastify'', fw ''backend'' ''Fastify'' (12 / 10)),
     (''mongodb'', fw ''database'' ''MongoDB'' (12 / 10)),
     (''orm'', fw ''database'' ''ORM (Prisma/TypeORM)'' (13 / 10)),
     (''docker'', fw ''devops'' ''Docker'' (14 / 10)),
     (''kubernetes'', fw ''devops'' ''Kubernetes'' (15 / 10)),
     (''ci-cd'', fw ''devops'' ''CI/CD'' (13 / 10)),
     (''infrastructure-as-code'', fw ''devops'' ''Infrastructure as Code'' (14 / 10)),
     (''testing'', fw ''quality'' ''Testing'' (12 / 10)),
     (''e2e-testing'', fw ''quality'' ''E2E Testing'' (13 / 10)),
     (''game-development'', fw ''specialty'' ''Game Development'' (15 / 10)),
     (''3d-graphics'', fw ''specialty'' ''3D Graphics'' (14 / 10)),
     (''data-visualization'', fw ''specialty'' ''Data Visualization'' (13 / 10)),
     (''desktop-app'', fw ''specialty'' ''Desktop Apps (Electron)'' (13 / 10)),
     (''mobile-app'', fw ''specialty'' ''Mobile Development'' (14 / 10)),
     (''graphql'', fw ''api'' ''GraphQL'' (13 / 10)),
     (''component-architecture'', fw ''architecture'' ''Component Architecture'' (11 / 10)),
     (''api-development'', fw ''architecture'' ''API Development'' (13 / 10)),
     (''mvc'', fw ''architecture'' ''MVC Pattern'' (11 / 10)),
     (''state-management'', fw ''architecture'' ''State Management'' (12 / 10)),
     (''react-hooks'', fw ''architecture'' ''React Hooks'' (11 / 10)),
     (''tailwind'', fw ''styling'' ''Tailwind CSS'' (12 / 10)),
     (''css-in-js'', fw ''styling'' ''CSS-in-JS'' (11 / 10)),
     (''typescript'', fw ''tooling'' ''TypeScript'' (14 / 10)),
     (''bundling'', fw ''tooling'' ''Build Tools'' (11 / 10)),
     (''linting'', fw ''tooling'' ''Code Quality'' 1)]"

record language_info =
  li_level :: string
  li_aliases :: "string list option"
  li_parent :: "string option"

definition lang :: "string \<Rightarrow> string list option \<Rightarrow> string option \<Rightarrow> language_info" where
  "lang l a p = \<lparr>li_level = l, li_aliases = a, li_parent = p\<rparr>"

definition LANGUAGE_SKILLS :: "(string \<times> language_info) list" where
  "LANGUAGE_SKILLS =
    [(''JavaScript'', lang ''language'' (Some [''js'', ''node'', ''nodejs'']) None),
     (''JavaScript (React)'', lang ''language'' None (Some ''JavaScript'')),
     (''TypeScript'', lang ''language'' (Some [''ts'']) None),
     (''TypeScript (React)'', lang ''language'' None (Some ''TypeScript'')),
     (''Python'', lang ''language'' (Some [''py'', ''python3'']) None),
     (''Go'', lang ''language'' (Some [''golang'']) None),
     (''Rust'', lang ''language'' (Some [''rs'']) None),
     (''Java'', lang ''language'' None None),
     (''C#'', lang ''language'' (Some [''csharp'', ''dotnet'']) None),
     (''C'', lang ''language'' None None),
     (''C++'', lang ''language'' (Some [''cpp'']) None),
     (''Ruby'', lang ''language'' (Some [''rb'']) None),
     (''PHP'', lang ''language'' None None),
     (''Swift'', lang ''language'' None None),
     (''Kotlin'', lang ''language'' None None),
     (''Scala'', lang ''language'' None None),
     (''Elixir'', lang ''language'' None None),
     (''Haskell'', lang ''language'' None None),
     (''Lua'', lang ''language'' None None),
     (''SQL'', lang ''language'' None None),
     (''Shell'', lang ''language'' (Some [''bash'', ''sh'']) None),
     (''HTML'', lang ''markup'' None None),
     (''CSS'', lang ''styling'' None None),
     (''SCSS'', lang ''styling'' None (Some ''CSS'')),
     (''Sass'', lang ''styling'' None (Some ''CSS'')),
     (''Vue'', lang ''framework'' None None),
     (''Svelte'', lang ''framework'' None None)]"

definition patternToDomain :: "(string \<times> string) list" where
  "patternToDomain =
    [(''game-development'', ''Game Development''),
     (''3d-graphics'', ''3D Graphics & Visualization''),
     (''data-visualization'', ''Data Visualization''),
     (''mobile-app'', ''Mobile Development''),
     (''desktop-app'', ''Desktop Applications''),
     (''api-development'', ''API & Backend Services''),
     (''kubernetes'', ''Cloud Infrastructure''),
     (''docker'', ''DevOps''),
     (''ci-cd'', ''DevOps''),
     (''infrastructure-as-code'', ''Cloud Infrastructure''),
     (''testing'', ''Quality Assurance''),
     (''e2e-testing'', ''Quality Assurance'')]"

definition frameworkToDomain :: "(string \<times> string) list" where
  "frameworkToDomain =
    [(''frontend'', ''Frontend Development''),
     (''backend'', ''Backend Development''),
     (''database'', ''Database & Data''),
     (''devops'', ''DevOps''),
     (''specialty'', ''Specialized Development'')]"

section \<open>Repository feature records\<close>

text \<open>
  The history record has two shapes in the program: the full one, and the sentinel
  returned when the history is unavailable, which carries only an error text, a null last
  commit, a commit count of zero and the freshness tag unknown.  A field that a shape does
  not carry is \<open>None\<close>; a number that may be \<open>NaN\<close> is an \<open>int option\<close> with \<open>None\<close> for
  \<open>NaN\<close>.
\<close>

datatype freshness = Fresh | Aging | Stale | Unknown

record git_history =
  git_error :: "string option"
  lastCommit :: "string option"
  firstCommit :: "string option"
  commitCount :: "int option"
  currentBranch :: "string option"
  hasRemote :: "bool option"
  remoteBehind :: "int option"
  daysSinceCommit :: "int option option"
  freshness :: freshness
  authors :: "(string \<times> int) list option"

text \<open>
  Of a repository record the builder reads the history, the languages (name and file
  count of each), the patterns, the dependencies by ecosystem and the exclusion mark.  A
  list that is absent is treated by the program as the empty list, and is the empty list
  here.
\<close>

record language_stat =
  lang_name :: string
  lang_count :: nat

record repo =
  repo_name :: string
  repo_path :: string
  git :: "git_history option"
  languages :: "language_stat list"
  dependencies :: "(string \<times> string list) list"
  patterns :: "string list"
  excluded :: bool

section \<open>The profile builder (\<open>buildSkillsProfile\<close>)\<close>

record lang_counts =
  lc_count :: nat
  lc_repos :: nat

record framework_counts =
  fc_info :: framework_info
  fc_repos :: nat

record tool_counts =
  tc_name :: string
  tc_ecosystem :: string
  tc_repos :: nat

record aggregate =
  languageCounts :: "(string \<times> lang_counts) list"
  frameworkCounts :: "(string \<times> framework_counts) list"
  patternCounts :: "(string \<times> nat) list"
  toolCounts :: "(string \<times> tool_counts) list"
  totalCommits :: int
  earliestCommit :: int
  latestCommit :: int

text \<open>
  \<open>new Date(text)\<close> is a parameter \<open>Date_parse\<close>: the time value in milliseconds, or
  \<open>None\<close> for an invalid date, whose comparisons are all false.  \<open>new Date()\<close> is the
  parameter \<open>now\<close>.
\<close>

definition track_first :: "(string \<Rightarrow> int option) \<Rightarrow> repo \<Rightarrow> int \<Rightarrow> int" where
  "track_first Date_parse r earliest =
     (case git r of
        None \<Rightarrow> earliest
      | Some g \<Rightarrow>
          (case firstCommit g of
             None \<Rightarrow> earliest
           | Some s \<Rightarrow>
               if s = [] then earliest
               else (case Date_parse s of
                       None \<Rightarrow> earliest
                     | Some firstDate \<Rightarrow> if firstDate < earliest then firstDate else earliest)))"

definition track_last :: "(string \<Rightarrow> int option) \<Rightarrow> repo \<Rightarrow> int \<Rightarrow> int" where
  "track_last Date_parse r latest =
     (case git r of
        None \<Rightarrow> latest
      | Some g \<Rightarrow>
          (case lastCommit g of
             None \<Rightarrow> latest
           | Some s \<Rightarrow>
               if s = [] then latest
               else (case Date_parse s of
                       None \<Rightarrow> latest
                     | Some lastDate \<Rightarrow> if lastDate > latest then lastDate else latest)))"

definition repo_commits :: "repo \<Rightarrow> int" where
  "repo_commits r =
     (case git r of
        None \<Rightarrow> 0
      | Some g \<Rightarrow> (case commitCount g of None \<Rightarrow> 0 | Some n \<Rightarrow> n))"

definition add_language ::
  "language_stat \<Rightarrow> (string \<times> lang_counts) list \<Rightarrow> (string \<times> lang_counts) list" where
  "add_language l lcs =
     (let d = (case map_of lcs (lang_name l) of
                 None \<Rightarrow> \<lparr>lc_count = 0, lc_repos = 0\<rparr>
               | Some d \<Rightarrow> d)
      in obj_set (lang_name l)
           \<lparr>lc_count = lc_count d + lang_count l, lc_repos = lc_repos d + 1\<rparr> lcs)"

definition count_pattern :: "string \<Rightarrow> (string \<times> nat) list \<Rightarrow> (string \<times> nat) list" where
  "count_pattern pattern pcs =
     obj_set pattern ((case map_of pcs pattern of None \<Rightarrow> 0 | Some c \<Rightarrow> c) + 1) pcs"

definition count_framework ::
  "string \<Rightarrow> (string \<times> framework_counts) list \<Rightarrow> (string \<times> framework_counts) list" where
  "count_framework pattern fcs =
     (case map_of FRAMEWORK_CATEGORIES pattern of
        None \<Rightarrow> fcs
      | Some frameworkInfo \<Rightarrow>
          (let d = (case map_of fcs pattern of
                      None \<Rightarrow> \<lparr>fc_info = frameworkInfo, fc_repos = 0\<rparr>
                    | Some d \<Rightarrow> d)
           in obj_set pattern (d\<lparr>fc_repos := fc_repos d + 1\<rparr>) fcs))"

definition add_tool ::
  "string \<Rightarrow> string \<Rightarrow> (string \<times> tool_counts) list \<Rightarrow> (string \<times> tool_counts) list" where
  "add_tool ecosystem dep tcs =
     (let d = (case map_of tcs dep of
                 None \<Rightarrow> \<lparr>tc_name = dep, tc_ecosystem = ecosystem, tc_repos = 0\<rparr>
               | Some d \<Rightarrow> d)
      in obj_set dep (d\<lparr>tc_repos := tc_repos d + 1\<rparr>) tcs)"

definition add_dependencies ::
  "string \<times> string list \<Rightarrow> (string \<times> tool_counts) list \<Rightarrow> (string \<times> tool_counts) list" where
  "add_dependencies entry tcs = fold (add_tool (fst entry)) (snd entry) tcs"

text \<open>One round of the loop over the repositories; an excluded record is skipped whole.\<close>

definition add_repo :: "(string \<Rightarrow> int option) \<Rightarrow> repo \<Rightarrow> aggregate \<Rightarrow> aggregate" where
  "add_repo Date_parse r a =
     (if excluded r then a
      else
        \<lparr>languageCounts = fold add_language (languages r) (languageCounts a),
         frameworkCounts = fold count_framework (patterns r) (frameworkCounts a),
         patternCounts = fold count_pattern (patterns r) (patternCounts a),
         toolCounts = fold add_dependencies (dependencies r) (toolCounts a),
         totalCommits = totalCommits a + repo_commits r,
         earliestCommit = track_first Date_parse r (earliestCommit a),
         latestCommit = track_last Date_parse r (latestCommit a)\<rparr>)"

definition aggregate_init :: "int \<Rightarrow> aggregate" where
  "aggregate_init now =
     \<lparr>languageCounts = [], frameworkCounts = [], patternCounts = [], toolCounts = [],
      totalCommits = 0, earliestCommit = now, latestCommit = 0\<rparr>"

definition aggregate_repos :: "(string \<Rightarrow> int option) \<Rightarrow> int \<Rightarrow> repo list \<Rightarrow> aggregate" where
  "aggregate_repos Date_parse now analyzedRepos =
     fold (add_repo Date_parse) analyzedRepos (aggregate_init now)"

record language_entry =
  le_fileCount :: nat
  le_repoCount :: nat
  le_proficiency :: proficiency
  le_level :: string
  le_aliases :: "string list option"
  le_parent :: "string option"

record framework_entry =
  fe_key :: string
  fe_category :: string
  fe_repoCount :: nat
  fe_proficiency :: proficiency

record tool_entry =
  te_ecosystem :: string
  te_repoCount :: nat

record summary =
  sum_totalRepos :: nat
  sum_totalCommits :: int
  yearsActive :: int
  topLanguages :: "(string \<times> language_entry) list"
  topFrameworks :: "(string \<times> framework_entry) list"

record profile =
  prof_languages :: "(string \<times> language_entry) list"
  prof_frameworks :: "(string \<times> framework_entry) list"
  prof_tools :: "(string \<times> tool_entry) list"
  prof_patterns :: "string list"
  prof_domains :: "string list"
  prof_summary :: summary

definition language_skill :: "nat \<Rightarrow> string \<times> lang_counts \<Rightarrow> language_entry" where
  "language_skill n_repos entry =
     (let langInfo = (case map_of LANGUAGE_SKILLS (fst entry) of
                        None \<Rightarrow> lang ''language'' None None
                      | Some i \<Rightarrow> i);
          proficiency = calculateProficiency (lc_repos (snd entry)) n_repos 1
      in \<lparr>le_fileCount = lc_count (snd entry), le_repoCount = lc_repos (snd entry),
          le_proficiency = proficiency, le_level = li_level langInfo,
          le_aliases = li_aliases langInfo, le_parent = li_parent langInfo\<rparr>)"

definition process_languages ::
  "nat \<Rightarrow> (string \<times> lang_counts) list \<Rightarrow> (string \<times> language_entry) list" where
  "process_languages n_repos lcs =
     fold (\<lambda>entry langs. obj_set (fst entry) (language_skill n_repos entry) langs) lcs []"

definition framework_skill :: "nat \<Rightarrow> string \<times> framework_counts \<Rightarrow> framework_entry" where
  "framework_skill n_repos entry =
     \<lparr>fe_key = fst entry, fe_category = fw_category (fc_info (snd entry)),
      fe_repoCount = fc_repos (snd entry),
      fe_proficiency =
        calculateProficiency (fc_repos (snd entry)) n_repos (fw_weight (fc_info (snd entry)))\<rparr>"

definition process_frameworks ::
  "nat \<Rightarrow> (string \<times> framework_counts) list \<Rightarrow> (string \<times> framework_entry) list" where
  "process_frameworks n_repos fcs =
     fold (\<lambda>entry fws. obj_set (fw_name (fc_info (snd entry))) (framework_skill n_repos entry) fws)
       fcs []"

definition process_tools :: "(string \<times> tool_counts) list \<Rightarrow> (string \<times> tool_entry) list" where
  "process_tools tcs =
     (let significantTools =
            take 20 (sort_desc (\<lambda>e. tc_repos (snd e)) (filter (\<lambda>e. tc_repos (snd e) \<ge> 2) tcs))
      in fold (\<lambda>entry tools.
                 obj_set (fst entry)
                   \<lparr>te_ecosystem = tc_ecosystem (snd entry), te_repoCount = tc_repos (snd entry)\<rparr>
                   tools)
           significantTools [])"

definition add_pattern_domain :: "string \<Rightarrow> string list \<Rightarrow> string list" where
  "add_pattern_domain pattern domains =
     (case map_of patternToDomain pattern of
        None \<Rightarrow> domains
      | Some d \<Rightarrow> set_add d domains)"

definition add_framework_domain :: "framework_entry \<Rightarrow> string list \<Rightarrow> string list" where
  "add_framework_domain framework domains =
     (case map_of frameworkToDomain (fe_category framework) of
        None \<Rightarrow> domains
      | Some d \<Rightarrow> set_add d domains)"

definition deriveDomains :: "string list \<Rightarrow> (string \<times> framework_entry) list \<Rightarrow> string list" where
  "deriveDomains pats frameworks =
     fold add_framework_domain (map snd frameworks) (fold add_pattern_domain pats [])"

definition ms_per_year :: int where
  "ms_per_year = 1000 * 60 * 60 * 24 * 365"

definition buildSkillsProfile :: "(string \<Rightarrow> int option) \<Rightarrow> int \<Rightarrow> repo list \<Rightarrow> profile" where
  "buildSkillsProfile Date_parse now analyzedRepos =
     (let a = aggregate_repos Date_parse now analyzedRepos;
          years = max 1 (Math_round (of_int (latestCommit a - earliestCommit a) / of_int ms_per_year));
          langs = process_languages (length analyzedRepos) (languageCounts a);
          topLangs = take 5 (sort_desc (\<lambda>e. le_repoCount (snd e))
                               (filter (\<lambda>e. le_level (snd e) = ''language'') langs));
          fws = process_frameworks (length analyzedRepos) (frameworkCounts a);
          topFws = take 5 (sort_desc (\<lambda>e. fe_repoCount (snd e)) fws);
          uniquePatterns = fold set_add (map fst (patternCounts a)) []
      in \<lparr>prof_languages = langs, prof_frameworks = fws,
          prof_tools = process_tools (toolCounts a),
          prof_patterns = uniquePatterns,
          prof_domains = deriveDomains uniquePatterns fws,
          prof_summary =
            \<lparr>sum_totalRepos = length analyzedRepos, sum_totalCommits = totalCommits a,
             yearsActive = years, topLanguages = topLangs, topFrameworks = topFws\<rparr>\<rparr>)"

section \<open>The matcher (\<open>matchSkillsToJob\<close>, \<open>matchJobsToProfile\<close>, \<open>categorizeMatches\<close>)\<close>

text \<open>
  Of a job the matcher reads the skill tokens, the description, the location and the
  remote mark; each may be absent (\<open>None\<close>), and the program then takes the empty list,
  the empty text, the empty text and false.  The record \<open>job\<close> carries these fields with
  the types of the data model (texts, and a boolean for the remote mark) beside the
  identity of the job; a stored record whose description or location is not a text is
  outside the matcher's model.  The preference lists may be absent as well.
\<close>

record job =
  job_id :: string
  job_title :: string
  job_company :: string
  skills :: "string list option"
  description :: "string option"
  location :: "string option"
  remote :: "bool option"

record preferences =
  wantSkills :: "string list option"
  avoidSkills :: "string list option"
  locations :: "string list option"

record skill_match =
  sm_name :: string
  sm_type :: string
  sm_proficiency :: proficiency

record job_match =
  jm_score :: int
  jm_matched :: "skill_match list"
  jm_missing :: "string list"
  jm_bonus :: "skill_match list"

definition job_skills :: "job \<Rightarrow> string list" where
  "job_skills j = (case skills j of None \<Rightarrow> [] | Some s \<Rightarrow> s)"

definition language_aliases :: "string \<Rightarrow> string list" where
  "language_aliases name =
     (case map_of LANGUAGE_SKILLS name of
        None \<Rightarrow> []
      | Some i \<Rightarrow> (case li_aliases i of None \<Rightarrow> [] | Some a \<Rightarrow> a))"

text \<open>One round of the loop over the languages; the state is \<open>(matched, bonus)\<close>.\<close>

definition check_language ::
  "string list \<Rightarrow> string \<Rightarrow> string \<times> language_entry \<Rightarrow>
   skill_match list \<times> skill_match list \<Rightarrow> skill_match list \<times> skill_match list" where
  "check_language jobSkills jobDescription entry st =
     (let nameLower = toLowerCase (fst entry);
          allNames = nameLower # language_aliases (fst entry);
          inSkills = list_ex (\<lambda>n. n \<in> set jobSkills) allNames;
          inDesc = list_ex (\<lambda>n. str_includes jobDescription n) allNames;
          item = \<lparr>sm_name = fst entry, sm_type = ''language'',
                  sm_proficiency = le_proficiency (snd entry)\<rparr>
      in if inSkills then (fst st @ [item], snd st)
         else if inDesc then (fst st, snd st @ [item])
         else st)"

text \<open>One round of the loop over the frameworks; the state is \<open>matched\<close>.\<close>

definition check_framework ::
  "string list \<Rightarrow> string \<Rightarrow> string \<times> framework_entry \<Rightarrow> skill_match list \<Rightarrow> skill_match list" where
  "check_framework jobSkills jobDescription entry matched =
     (let nameLower = toLowerCase (fst entry)
      in if nameLower \<in> set jobSkills \<or> str_includes jobDescription nameLower
         then matched @ [\<lparr>sm_name = fst entry, sm_type = ''framework'',
                          sm_proficiency = fe_proficiency (snd entry)\<rparr>]
         else matched)"

definition matchSkillsToJob :: "profile \<Rightarrow> job \<Rightarrow> job_match" where
  "matchSkillsToJob prof j =
     (let jobSkills = map toLowerCase (job_skills j);
          jobDescription = toLowerCase (case description j of None \<Rightarrow> [] | Some d \<Rightarrow> d);
          st = fold (check_language jobSkills jobDescription) (prof_languages prof) ([], []);
          matched = fold (check_framework jobSkills jobDescription) (prof_frameworks prof) (fst st);
          missing = filter (\<lambda>skill. \<not> list_ex (\<lambda>m. toLowerCase (sm_name m) = skill) matched)
                      jobSkills;
          requiredCount = (if length jobSkills = 0 then 1 else length jobSkills);
          matchedCount = length matched;
          score = Math_round (of_nat matchedCount / of_nat requiredCount * 100)
      in \<lparr>jm_score = score, jm_matched = matched, jm_missing = missing, jm_bonus = snd st\<rparr>)"

record MatchResult =
  mr_job :: job
  mr_score :: int
  mr_baseScore :: int
  mr_matchedSkills :: "skill_match list"
  mr_missingSkills :: "string list"
  mr_bonusSkills :: "skill_match list"
  locationMatch :: bool
  wantMatch :: bool
  hasAvoid :: bool

definition wantScore :: "preferences \<Rightarrow> skill_match list \<Rightarrow> int" where
  "wantScore prefs matched =
     (case wantSkills prefs of
        None \<Rightarrow> 0
      | Some ws \<Rightarrow>
          if length ws > 0
          then int (length (filter (\<lambda>m. list_ex (\<lambda>w. str_includes (toLowerCase (sm_name m))
                                                       (toLowerCase w)) ws) matched)) * 10
          else 0)"

definition avoidPenalty :: "preferences \<Rightarrow> job \<Rightarrow> int" where
  "avoidPenalty prefs j =
     (case avoidSkills prefs of
        None \<Rightarrow> 0
      | Some as \<Rightarrow>
          if length as > 0
          then int (length (filter (\<lambda>s. list_ex (\<lambda>a. str_includes (toLowerCase s) (toLowerCase a)) as)
                              (job_skills j))) * 15
          else 0)"

definition location_matches :: "preferences \<Rightarrow> job \<Rightarrow> bool" where
  "location_matches prefs j =
     (case locations prefs of
        None \<Rightarrow> True
      | Some locs \<Rightarrow>
          if length locs > 0
          then (let jobLoc = (case location j of None \<Rightarrow> [] | Some l \<Rightarrow> toLowerCase l);
                    isRemote = (remote j = Some True \<or> str_includes jobLoc ''remote'')
                in list_ex (\<lambda>loc. if toLowerCase loc = ''remote'' then isRemote
                                   else str_includes jobLoc (toLowerCase loc)) locs)
          else True)"

text \<open>One round of the loop over the jobs.\<close>

definition match_job :: "profile \<Rightarrow> preferences \<Rightarrow> job \<Rightarrow> MatchResult" where
  "match_job prof prefs j =
     (let m = matchSkillsToJob prof j;
          want = wantScore prefs (jm_matched m);
          avoid = avoidPenalty prefs j;
          adjustedScore = max 0 (min 100 (jm_score m + want - avoid))
      in \<lparr>mr_job = j, mr_score = adjustedScore, mr_baseScore = jm_score m,
          mr_matchedSkills = jm_matched m, mr_missingSkills = jm_missing m,
          mr_bonusSkills = jm_bonus m, locationMatch = location_matches prefs j,
          wantMatch = (want > 0), hasAvoid = (avoid > 0)\<rparr>)"

text \<open>The results are sorted by descending score; the sort is stable.\<close>

definition matchJobsToProfile :: "job list \<Rightarrow> profile \<Rightarrow> preferences \<Rightarrow> MatchResult list" where
  "matchJobsToProfile jobs prof prefs =
     sort_key (\<lambda>m. - mr_score m) (map (match_job prof prefs) jobs)"

record categories =
  cat_want :: "MatchResult list"
  cat_qualified :: "MatchResult list"
  cat_stretch :: "MatchResult list"
  cat_filtered :: "MatchResult list"

definition categorizeMatches :: "MatchResult list \<Rightarrow> categories" where
  "categorizeMatches matches =
     \<lparr>cat_want = filter (\<lambda>m. wantMatch m \<and> mr_score m \<ge> 50 \<and> locationMatch m \<and> \<not> hasAvoid m) matches,
      cat_qualified =
        filter (\<lambda>m. mr_score m \<ge> 50 \<and> locationMatch m \<and> \<not> wantMatch m \<and> \<not> hasAvoid m) matches,
      cat_stretch = filter (\<lambda>m. mr_score m \<ge> 25 \<and> mr_score m < 50 \<and> locationMatch m) matches,
      cat_filtered = filter (\<lambda>m. \<not> locationMatch m \<or> hasAvoid m) matches\<rparr>"

section \<open>History extraction (\<open>analyzeGitHistory\<close>)\<close>











text \<open>Comparisons with \<open>NaN\<close> are false, so an unknown day count is fresh.\<close>

definition freshness_of :: "int option \<Rightarrow> freshness" where
  "freshness_of days =
     (case days of
        None \<Rightarrow> Fresh
      | Some d \<Rightarrow> if d > 90 then Stale else if d > 30 then Aging else Fresh)"




section \<open>Job ingestion (\<open>generateJobId\<close>, \<open>validateJob\<close>, \<open>normalizeJob\<close>, \<open>ingestJobsFromFile\<close>)\<close>

subsection \<open>Raw entries\<close>









subsection \<open>Texts of numbers and of values\<close>













subsection \<open>The job id\<close>








subsection \<open>Validation\<close>




subsection \<open>Normalisation\<close>








subsection \<open>Ingestion\<close>






section \<open>Concrete inputs\<close>

text \<open>Inputs at which the theorems below are instantiated and the program is evaluated.\<close>

definition no_dates :: "string \<Rightarrow> int option" where
  "no_dates s = None"

definition repo_python :: repo where
  "repo_python =
     \<lparr>repo_name = ''scripts'', repo_path = ''/code/scripts'', git = None,
      languages = [\<lparr>lang_name = ''Python'', lang_count = 3\<rparr>],
      dependencies = [], patterns = [''docker''], excluded = False\<rparr>"

definition repo_go :: repo where
  "repo_go =
     \<lparr>repo_name = ''service'', repo_path = ''/code/service'', git = None,
      languages = [\<lparr>lang_name = ''Go'', lang_count = 2\<rparr>],
      dependencies = [], patterns = [''react''], excluded = False\<rparr>"

definition repo_skipped :: repo where
  "repo_skipped =
     \<lparr>repo_name = ''old'', repo_path = ''/code/old'', git = None,
      languages = [\<lparr>lang_name = ''Python'', lang_count = 7\<rparr>],
      dependencies = [], patterns = [''docker''], excluded = True\<rparr>"

definition example_profile :: profile where
  "example_profile = buildSkillsProfile no_dates 0 [repo_python, repo_go]"

definition job_frontend :: job where
  "job_frontend =
     \<lparr>job_id = ''acme-dev'', job_title = ''Dev'', job_company = ''Acme'',
      skills = Some [''react''], description = Some ''We ship with Docker'',
      location = Some ''Remote'', remote = Some True\<rparr>"

definition job_backend :: job where
  "job_backend =
     \<lparr>job_id = ''initech-engineer'', job_title = ''Engineer'', job_company = ''Initech'',
      skills = Some [''go'', ''rust'', ''java'', ''kotlin''], description = Some ''Backend services'',
      location = Some ''Berlin'', remote = None\<rparr>"

definition job_legacy :: job where
  "job_legacy =
     \<lparr>job_id = ''globex-maintainer'', job_title = ''Maintainer'', job_company = ''Globex'',
      skills = Some [''python'', ''cobol''], description = None,
      location = Some ''Remote'', remote = Some True\<rparr>"


definition some_preferences :: preferences where
  "some_preferences =
     \<lparr>wantSkills = Some [''react''], avoidSkills = Some [''cobol''], locations = Some [''Remote'']\<rparr>"

definition example_matches :: "MatchResult list" where
  "example_matches =
     matchJobsToProfile [job_frontend, job_backend, job_legacy] example_profile some_preferences"











section \<open>Auxiliary notions for the proofs\<close>

text \<open>
  Invariants of the aggregate, and the aggregation steps on finite maps (the dictionaries
  without their key order).
\<close>

definition fc_inv :: "(string \<times> framework_counts) list \<Rightarrow> bool" where
  "fc_inv fcs = (\<forall>e \<in> set fcs. map_of FRAMEWORK_CATEGORIES (fst e) = Some (fc_info (snd e)))"

definition agg_inv :: "aggregate \<Rightarrow> bool" where
  "agg_inv a \<longleftrightarrow>
     distinct (map fst (languageCounts a)) \<and> distinct (map fst (frameworkCounts a))
     \<and> distinct (map fst (patternCounts a)) \<and> fc_inv (frameworkCounts a)"

definition add_language_abs :: "language_stat \<Rightarrow> (string \<rightharpoonup> lang_counts) \<Rightarrow> (string \<rightharpoonup> lang_counts)" where
  "add_language_abs l m =
     (let d = (case m (lang_name l) of None \<Rightarrow> \<lparr>lc_count = 0, lc_repos = 0\<rparr> | Some d \<Rightarrow> d)
      in m(lang_name l \<mapsto> \<lparr>lc_count = lc_count d + lang_count l, lc_repos = lc_repos d + 1\<rparr>))"

definition count_framework_abs ::
  "string \<Rightarrow> (string \<rightharpoonup> framework_counts) \<Rightarrow> (string \<rightharpoonup> framework_counts)" where
  "count_framework_abs p m =
     (case map_of FRAMEWORK_CATEGORIES p of
        None \<Rightarrow> m
      | Some info \<Rightarrow>
          (let d = (case m p of None \<Rightarrow> \<lparr>fc_info = info, fc_repos = 0\<rparr> | Some d \<Rightarrow> d)
           in m(p \<mapsto> d\<lparr>fc_repos := fc_repos d + 1\<rparr>)))"

definition count_pattern_abs :: "string \<Rightarrow> (string \<rightharpoonup> nat) \<Rightarrow> (string \<rightharpoonup> nat)" where
  "count_pattern_abs p m = m(p \<mapsto> (case m p of None \<Rightarrow> 0 | Some c \<Rightarrow> c) + 1)"





section \<open>Properties of the proficiency tiers\<close>

lemma calculateProficiency_pos:
  "0 < totalRepos \<Longrightarrow>
   calculateProficiency repoCount totalRepos weight =
   spec_tier (of_nat repoCount / of_nat totalRepos * weight)"
  by (simp add: calculateProficiency_def spec_tier_def js_div_def)

lemma spec_tier_mono: "x \<le> y \<Longrightarrow> tier_rank (spec_tier x) \<le> tier_rank (spec_tier y)"
  by (simp add: spec_tier_def)

lemma spec_tier_nonpos: "x \<le> 0 \<Longrightarrow> spec_tier x = Familiar"
  by (simp add: spec_tier_def)



section \<open>Properties of the profile builder\<close>

subsection \<open>Objects\<close>

lemma map_of_obj_set: "map_of (obj_set k v xs) = (map_of xs)(k \<mapsto> v)"
  by (induction xs) (auto simp: fun_eq_iff)

lemma keys_obj_set: "fst ` set (obj_set k v xs) = insert k (fst ` set xs)"
  by (induction xs) auto

lemma distinct_obj_set: "distinct (map fst xs) \<Longrightarrow> distinct (map fst (obj_set k v xs))"
proof (induction xs)
  case Nil
  then show ?case by simp
next
  case (Cons p ps)
  then show ?case
    using keys_obj_set [of k v ps] by (auto simp: image_iff)
qed

lemma set_obj_set_subset: "set (obj_set k v xs) \<subseteq> insert (k, v) (set xs)"
  by (induction xs) auto

lemma obj_set_fresh: "k \<notin> fst ` set xs \<Longrightarrow> obj_set k v xs = xs @ [(k, v)]"
  by (induction xs) auto

lemma fold_obj_set_distinct:
  "distinct (map f xs) \<Longrightarrow> f ` set xs \<inter> fst ` set acc = {} \<Longrightarrow>
   fold (\<lambda>e acc. obj_set (f e) (g e) acc) xs acc = acc @ map (\<lambda>e. (f e, g e)) xs"
proof (induction xs arbitrary: acc)
  case Nil
  then show ?case by simp
next
  case (Cons x xs)
  have fresh: "f x \<notin> fst ` set acc" using Cons.prems(2) by auto
  have "f ` set xs \<inter> fst ` set (acc @ [(f x, g x)]) = {}"
    using Cons.prems by auto
  with Cons.IH [of "acc @ [(f x, g x)]"] Cons.prems(1) fresh show ?case
    by (simp add: obj_set_fresh)
qed

lemma obj_set_rel:
  assumes "list_all2 (\<lambda>p q. fst p = fst q \<and> R (snd p) (snd q)) xs ys" "R v w"
  shows "list_all2 (\<lambda>p q. fst p = fst q \<and> R (snd p) (snd q)) (obj_set k v xs) (obj_set k w ys)"
  using assms by (induction xs ys rule: list_all2_induct) auto

lemma fold_obj_set_rel:
  assumes "list_all2 (\<lambda>p q. fst p = fst q \<and> R (snd p) (snd q)) acc acc'"
    and "\<And>e. e \<in> set xs \<Longrightarrow> R (g e) (g' e)"
  shows "list_all2 (\<lambda>p q. fst p = fst q \<and> R (snd p) (snd q))
           (fold (\<lambda>e acc. obj_set (f e) (g e) acc) xs acc)
           (fold (\<lambda>e acc. obj_set (f e) (g' e) acc) xs acc')"
  using assms
proof (induction xs arbitrary: acc acc')
  case Nil
  then show ?case by simp
next
  case (Cons x xs)
  have "list_all2 (\<lambda>p q. fst p = fst q \<and> R (snd p) (snd q))
          (obj_set (f x) (g x) acc) (obj_set (f x) (g' x) acc')"
    using Cons.prems by (intro obj_set_rel) auto
  then show ?case
    using Cons.prems(2) by (simp add: Cons.IH)
qed

lemma set_fold_obj_set_subset:
  "set (fold (\<lambda>e acc. obj_set (f e) (g e) acc) xs acc)
     \<subseteq> set acc \<union> (\<lambda>e. (f e, g e)) ` set xs"
proof (induction xs arbitrary: acc)
  case Nil
  then show ?case by simp
next
  case (Cons x xs)
  show ?case
    using Cons.IH [of "obj_set (f x) (g x) acc"] set_obj_set_subset [of "f x" "g x" acc]
    by auto
qed

lemma set_set_add: "set (set_add x xs) = insert x (set xs)"
  by (auto simp: set_add_def)

lemma set_fold_set_add: "set (fold set_add xs acc) = set acc \<union> set xs"
  by (induction xs arbitrary: acc) (auto simp: set_set_add)

subsection \<open>Excluded records\<close>

lemma add_repo_excluded: "excluded r \<Longrightarrow> add_repo D r a = a"
  by (simp add: add_repo_def)

lemma fold_add_repo_filter:
  "fold (add_repo D) rs a = fold (add_repo D) (filter (\<lambda>r. \<not> excluded r) rs) a"
  by (induction rs arbitrary: a) (simp_all add: add_repo_excluded)

lemma aggregate_repos_filter:
  "aggregate_repos D now rs = aggregate_repos D now (filter (\<lambda>r. \<not> excluded r) rs)"
  unfolding aggregate_repos_def by (rule fold_add_repo_filter)

lemma aggregate_repos_insert_excluded:
  "excluded x \<Longrightarrow> aggregate_repos D now (rs1 @ x # rs2) = aggregate_repos D now (rs1 @ rs2)"
  by (simp add: aggregate_repos_def add_repo_excluded)

subsection \<open>Invariants of the aggregate\<close>

lemma fc_inv_count_framework: "fc_inv fcs \<Longrightarrow> fc_inv (count_framework p fcs)"
proof (cases "map_of FRAMEWORK_CATEGORIES p")
  case None
  assume "fc_inv fcs"
  with None show ?thesis by (simp add: count_framework_def)
next
  case (Some info)
  assume inv: "fc_inv fcs"
  define d where "d = (case map_of fcs p of None \<Rightarrow> \<lparr>fc_info = info, fc_repos = 0\<rparr> | Some d \<Rightarrow> d)"
  have "fc_info d = info"
  proof (cases "map_of fcs p")
    case None
    then show ?thesis by (simp add: d_def)
  next
    case (Some d')
    then have "(p, d') \<in> set fcs" by (rule map_of_SomeD)
    with inv Some \<open>map_of FRAMEWORK_CATEGORIES p = Some info\<close> show ?thesis
      by (auto simp: fc_inv_def d_def)
  qed
  moreover have "count_framework p fcs = obj_set p (d\<lparr>fc_repos := fc_repos d + 1\<rparr>) fcs"
    using Some by (simp add: count_framework_def d_def Let_def)
  ultimately show ?thesis
    using inv Some set_obj_set_subset [of p "d\<lparr>fc_repos := fc_repos d + 1\<rparr>" fcs]
    by (auto simp: fc_inv_def)
qed

lemma fc_inv_fold: "fc_inv fcs \<Longrightarrow> fc_inv (fold count_framework ps fcs)"
  by (induction ps arbitrary: fcs) (simp_all add: fc_inv_count_framework)

lemma distinct_add_language:
  "distinct (map fst lcs) \<Longrightarrow> distinct (map fst (add_language l lcs))"
  by (simp add: add_language_def Let_def distinct_obj_set)

lemma distinct_fold_add_language:
  "distinct (map fst lcs) \<Longrightarrow> distinct (map fst (fold add_language ls lcs))"
  by (induction ls arbitrary: lcs) (simp_all add: distinct_add_language)

lemma distinct_count_framework:
  "distinct (map fst fcs) \<Longrightarrow> distinct (map fst (count_framework p fcs))"
  by (simp add: count_framework_def Let_def distinct_obj_set split: option.splits)

lemma distinct_fold_count_framework:
  "distinct (map fst fcs) \<Longrightarrow> distinct (map fst (fold count_framework ps fcs))"
  by (induction ps arbitrary: fcs) (simp_all add: distinct_count_framework)

lemma distinct_count_pattern:
  "distinct (map fst pcs) \<Longrightarrow> distinct (map fst (count_pattern p pcs))"
  by (simp add: count_pattern_def distinct_obj_set)

lemma distinct_fold_count_pattern:
  "distinct (map fst pcs) \<Longrightarrow> distinct (map fst (fold count_pattern ps pcs))"
  by (induction ps arbitrary: pcs) (simp_all add: distinct_count_pattern)

lemma agg_inv_add_repo: "agg_inv a \<Longrightarrow> agg_inv (add_repo D r a)"
  by (simp add: agg_inv_def add_repo_def distinct_fold_add_language
      distinct_fold_count_framework distinct_fold_count_pattern fc_inv_fold)

lemma agg_inv_fold: "agg_inv a \<Longrightarrow> agg_inv (fold (add_repo D) rs a)"
  by (induction rs arbitrary: a) (simp_all add: agg_inv_add_repo)

lemma agg_inv_aggregate_repos: "agg_inv (aggregate_repos D now rs)"
  unfolding aggregate_repos_def
  by (rule agg_inv_fold) (simp add: agg_inv_def aggregate_init_def fc_inv_def)

subsection \<open>The entries of the profile\<close>

lemma process_languages_entries:
  "e \<in> set (process_languages n lcs) \<Longrightarrow>
   \<exists>c \<in> set lcs. e = (fst c, language_skill n c)"
  using set_fold_obj_set_subset [of fst "language_skill n" lcs "[]"]
  by (auto simp: process_languages_def)

lemma process_frameworks_entries:
  "e \<in> set (process_frameworks n fcs) \<Longrightarrow>
   \<exists>c \<in> set fcs. e = (fw_name (fc_info (snd c)), framework_skill n c)"
  using set_fold_obj_set_subset [of "\<lambda>c. fw_name (fc_info (snd c))" "framework_skill n" fcs "[]"]
  by (auto simp: process_frameworks_def)

lemma language_skill_proficiency:
  "le_proficiency (language_skill n c) = calculateProficiency (le_repoCount (language_skill n c)) n 1"
  by (simp add: language_skill_def Let_def)

lemma framework_skill_proficiency:
  "fe_proficiency (framework_skill n c) =
   calculateProficiency (fe_repoCount (framework_skill n c)) n (fw_weight (fc_info (snd c)))"
  by (simp add: framework_skill_def)

lemma languages_denominator:
  assumes "e \<in> set (prof_languages (buildSkillsProfile D now rs))"
  shows "le_proficiency (snd e) = calculateProficiency (le_repoCount (snd e)) (length rs) 1"
proof -
  from assms have "e \<in> set (process_languages (length rs) (languageCounts (aggregate_repos D now rs)))"
    by (simp add: buildSkillsProfile_def Let_def)
  then obtain c where "e = (fst c, language_skill (length rs) c)"
    using process_languages_entries by blast
  then show ?thesis by (simp add: language_skill_proficiency)
qed

lemma frameworks_denominator:
  assumes "e \<in> set (prof_frameworks (buildSkillsProfile D now rs))"
  shows "\<exists>info. map_of FRAMEWORK_CATEGORIES (fe_key (snd e)) = Some info
           \<and> fe_proficiency (snd e) =
               calculateProficiency (fe_repoCount (snd e)) (length rs) (fw_weight info)"
proof -
  let ?fcs = "frameworkCounts (aggregate_repos D now rs)"
  from assms have "e \<in> set (process_frameworks (length rs) ?fcs)"
    by (simp add: buildSkillsProfile_def Let_def)
  then obtain c where c: "c \<in> set ?fcs"
    and e: "e = (fw_name (fc_info (snd c)), framework_skill (length rs) c)"
    using process_frameworks_entries by blast
  have "fc_inv ?fcs"
    using agg_inv_aggregate_repos [of D now rs] by (simp add: agg_inv_def)
  with c have "map_of FRAMEWORK_CATEGORIES (fst c) = Some (fc_info (snd c))"
    by (simp add: fc_inv_def)
  moreover have "fe_key (snd e) = fst c"
    using e by (simp add: framework_skill_def)
  ultimately show ?thesis
    using e by (simp add: framework_skill_proficiency)
qed

subsection \<open>A larger denominator\<close>

lemma spec_tier_antimono_den:
  fixes w :: rat
  assumes "0 < n"
  shows "tier_rank (spec_tier (of_nat c / of_nat (Suc n) * w))
           \<le> tier_rank (spec_tier (of_nat c / of_nat n * w))"
proof (cases "0 \<le> w")
  case True
  have "(of_nat c :: rat) / of_nat (Suc n) \<le> of_nat c / of_nat n"
    using assms by (intro divide_left_mono) (simp_all)
  then have "of_nat c / of_nat (Suc n) * w \<le> of_nat c / of_nat n * w"
    using True by (rule mult_right_mono)
  then show ?thesis by (rule spec_tier_mono)
next
  case False
  then have w: "w \<le> 0" by simp
  have "(0::rat) \<le> of_nat c / of_nat (Suc n)" by simp
  then have "of_nat c / of_nat (Suc n) * w \<le> 0"
    using w by (rule mult_nonneg_nonpos)
  then have "spec_tier (of_nat c / of_nat (Suc n) * w) = Familiar"
    by (rule spec_tier_nonpos)
  then show ?thesis by simp
qed

lemma calculateProficiency_Suc_den:
  "tier_rank (calculateProficiency c (Suc n) w) \<le> tier_rank (calculateProficiency c n w)"
proof (cases "n = 0")
  case False
  then have n: "0 < n" by simp
  show ?thesis
    using spec_tier_antimono_den [OF n, of c w]
    by (simp only: calculateProficiency_pos [OF n] calculateProficiency_pos [OF zero_less_Suc])
next
  case True
  show ?thesis
  proof (cases "c = 0")
    case True
    with \<open>n = 0\<close> show ?thesis
      by (simp add: calculateProficiency_def js_div_def spec_tier_def)
  next
    case False
    show ?thesis
    proof (cases "0 < w")
      case True
      with False \<open>n = 0\<close> show ?thesis
        by (cases "calculateProficiency c (Suc 0) w")
           (simp_all add: calculateProficiency_def js_div_def)
    next
      case False
      then have w: "w \<le> 0" by simp
      have "(0::rat) \<le> of_nat c / of_nat (Suc 0)" by simp
      then have "of_nat c / of_nat (Suc 0) * w \<le> 0"
        using w by (rule mult_nonneg_nonpos)
      then have "spec_tier (of_nat c / of_nat (Suc 0) * w) = Familiar"
        by (rule spec_tier_nonpos)
      then show ?thesis
        using \<open>n = 0\<close> by (simp only: calculateProficiency_pos [OF zero_less_Suc]) simp
    qed
  qed
qed


subsection \<open>Adding an excluded record\<close>

lemma process_languages_Suc:
  "list_all2 (\<lambda>p q. fst p = fst q \<and>
      (le_repoCount (snd p) = le_repoCount (snd q)
       \<and> tier_rank (le_proficiency (snd p)) \<le> tier_rank (le_proficiency (snd q))))
     (process_languages (Suc n) lcs) (process_languages n lcs)"
proof -
  have step: "le_repoCount (language_skill (Suc n) c) = le_repoCount (language_skill n c)
      \<and> tier_rank (le_proficiency (language_skill (Suc n) c))
          \<le> tier_rank (le_proficiency (language_skill n c))" for c
    by (simp add: language_skill_def Let_def calculateProficiency_Suc_den)
  show ?thesis
    unfolding process_languages_def
    by (rule fold_obj_set_rel) (simp, rule step)
qed

lemma process_frameworks_Suc:
  "list_all2 (\<lambda>p q. fst p = fst q \<and>
      (fe_repoCount (snd p) = fe_repoCount (snd q)
       \<and> tier_rank (fe_proficiency (snd p)) \<le> tier_rank (fe_proficiency (snd q))))
     (process_frameworks (Suc n) fcs) (process_frameworks n fcs)"
proof -
  have step: "fe_repoCount (framework_skill (Suc n) c) = fe_repoCount (framework_skill n c)
      \<and> tier_rank (fe_proficiency (framework_skill (Suc n) c))
          \<le> tier_rank (fe_proficiency (framework_skill n c))" for c
    by (simp add: framework_skill_def calculateProficiency_Suc_den)
  show ?thesis
    unfolding process_frameworks_def
    by (rule fold_obj_set_rel) (simp, rule step)
qed

lemma languages_insert_excluded:
  assumes "excluded x"
  shows "list_all2 (\<lambda>p q. fst p = fst q \<and>
            (le_repoCount (snd p) = le_repoCount (snd q)
             \<and> tier_rank (le_proficiency (snd p)) \<le> tier_rank (le_proficiency (snd q))))
          (prof_languages (buildSkillsProfile D now (rs1 @ x # rs2)))
          (prof_languages (buildSkillsProfile D now (rs1 @ rs2)))"
proof -
  have len: "length (rs1 @ x # rs2) = Suc (length (rs1 @ rs2))" by simp
  show ?thesis
    by (simp only: buildSkillsProfile_def Let_def profile.simps len
        aggregate_repos_insert_excluded [OF assms] process_languages_Suc)
qed

lemma frameworks_insert_excluded:
  assumes "excluded x"
  shows "list_all2 (\<lambda>p q. fst p = fst q \<and>
            (fe_repoCount (snd p) = fe_repoCount (snd q)
             \<and> tier_rank (fe_proficiency (snd p)) \<le> tier_rank (fe_proficiency (snd q))))
          (prof_frameworks (buildSkillsProfile D now (rs1 @ x # rs2)))
          (prof_frameworks (buildSkillsProfile D now (rs1 @ rs2)))"
proof -
  have len: "length (rs1 @ x # rs2) = Suc (length (rs1 @ rs2))" by simp
  show ?thesis
    by (simp only: buildSkillsProfile_def Let_def profile.simps len
        aggregate_repos_insert_excluded [OF assms] process_frameworks_Suc)
qed

subsection \<open>The aggregate as a function of the multiset of records\<close>

lemma languageCounts_fold:
  "languageCounts (fold (add_repo D) rs a) =
   fold add_language (concat (map languages (filter (\<lambda>r. \<not> excluded r) rs))) (languageCounts a)"
  by (induction rs arbitrary: a) (simp_all add: add_repo_def)

lemma frameworkCounts_fold:
  "frameworkCounts (fold (add_repo D) rs a) =
   fold count_framework (concat (map patterns (filter (\<lambda>r. \<not> excluded r) rs))) (frameworkCounts a)"
  by (induction rs arbitrary: a) (simp_all add: add_repo_def)

lemma patternCounts_fold:
  "patternCounts (fold (add_repo D) rs a) =
   fold count_pattern (concat (map patterns (filter (\<lambda>r. \<not> excluded r) rs))) (patternCounts a)"
  by (induction rs arbitrary: a) (simp_all add: add_repo_def)

lemma mset_concat_map_filter:
  assumes "mset rs = mset rs'"
  shows "mset (concat (map f (filter P rs))) = mset (concat (map f (filter P rs')))"
proof -
  have "mset (concat (map f (filter P ys))) = (\<Sum>r \<in># filter_mset P (mset ys). mset (f r))" for ys
    by (induction ys) simp_all
  then show ?thesis using assms by simp
qed

lemma map_of_add_language: "map_of (add_language l lcs) = add_language_abs l (map_of lcs)"
  by (simp add: add_language_def add_language_abs_def Let_def map_of_obj_set)

lemma add_language_abs_commute:
  "add_language_abs a \<circ> add_language_abs b = add_language_abs b \<circ> add_language_abs a"
  by (auto simp: fun_eq_iff add_language_abs_def Let_def split: option.splits)

lemma map_of_fold_add_language:
  "map_of (fold add_language ls lcs) = fold add_language_abs ls (map_of lcs)"
  by (induction ls arbitrary: lcs) (simp_all add: map_of_add_language)

lemma map_of_count_framework: "map_of (count_framework p fcs) = count_framework_abs p (map_of fcs)"
  by (simp add: count_framework_def count_framework_abs_def Let_def map_of_obj_set
      split: option.splits)

lemma count_framework_abs_commute:
  "count_framework_abs p \<circ> count_framework_abs q = count_framework_abs q \<circ> count_framework_abs p"
  by (cases "p = q")
     (auto simp: fun_eq_iff count_framework_abs_def Let_def split: option.splits)

lemma map_of_fold_count_framework:
  "map_of (fold count_framework ps fcs) = fold count_framework_abs ps (map_of fcs)"
  by (induction ps arbitrary: fcs) (simp_all add: map_of_count_framework)

lemma map_of_count_pattern: "map_of (count_pattern p pcs) = count_pattern_abs p (map_of pcs)"
  by (simp add: count_pattern_def count_pattern_abs_def map_of_obj_set)

lemma count_pattern_abs_commute:
  "count_pattern_abs p \<circ> count_pattern_abs q = count_pattern_abs q \<circ> count_pattern_abs p"
  by (cases "p = q") (auto simp: fun_eq_iff count_pattern_abs_def)

lemma map_of_fold_count_pattern:
  "map_of (fold count_pattern ps pcs) = fold count_pattern_abs ps (map_of pcs)"
  by (induction ps arbitrary: pcs) (simp_all add: map_of_count_pattern)

lemma set_eq_of_map_of_eq:
  assumes "map_of xs = map_of ys" "distinct (map fst xs)" "distinct (map fst ys)"
  shows "set xs = set ys"
  using assms map_of_inject_set by blast

lemma languageCounts_perm:
  assumes "mset rs = mset rs'"
  shows "set (languageCounts (aggregate_repos D now rs)) =
         set (languageCounts (aggregate_repos D now' rs'))"
proof (rule set_eq_of_map_of_eq)
  let ?ls = "\<lambda>rs. concat (map languages (filter (\<lambda>r. \<not> excluded r) rs))"
  have "mset (?ls rs) = mset (?ls rs')"
    using assms by (rule mset_concat_map_filter)
  then have "fold add_language_abs (?ls rs) = fold add_language_abs (?ls rs')"
    by (intro fold_multiset_equiv add_language_abs_commute)
  then show "map_of (languageCounts (aggregate_repos D now rs)) =
             map_of (languageCounts (aggregate_repos D now' rs'))"
    by (simp add: aggregate_repos_def languageCounts_fold map_of_fold_add_language
        aggregate_init_def)
  show "distinct (map fst (languageCounts (aggregate_repos D now rs)))"
    using agg_inv_aggregate_repos [of D now rs] by (simp add: agg_inv_def)
  show "distinct (map fst (languageCounts (aggregate_repos D now' rs')))"
    using agg_inv_aggregate_repos [of D now' rs'] by (simp add: agg_inv_def)
qed

lemma frameworkCounts_perm:
  assumes "mset rs = mset rs'"
  shows "set (frameworkCounts (aggregate_repos D now rs)) =
         set (frameworkCounts (aggregate_repos D now' rs'))"
proof (rule set_eq_of_map_of_eq)
  let ?ps = "\<lambda>rs. concat (map patterns (filter (\<lambda>r. \<not> excluded r) rs))"
  have "mset (?ps rs) = mset (?ps rs')"
    using assms by (rule mset_concat_map_filter)
  then have "fold count_framework_abs (?ps rs) = fold count_framework_abs (?ps rs')"
    by (intro fold_multiset_equiv count_framework_abs_commute)
  then show "map_of (frameworkCounts (aggregate_repos D now rs)) =
             map_of (frameworkCounts (aggregate_repos D now' rs'))"
    by (simp add: aggregate_repos_def frameworkCounts_fold map_of_fold_count_framework
        aggregate_init_def)
  show "distinct (map fst (frameworkCounts (aggregate_repos D now rs)))"
    using agg_inv_aggregate_repos [of D now rs] by (simp add: agg_inv_def)
  show "distinct (map fst (frameworkCounts (aggregate_repos D now' rs')))"
    using agg_inv_aggregate_repos [of D now' rs'] by (simp add: agg_inv_def)
qed

lemma patternCounts_perm:
  assumes "mset rs = mset rs'"
  shows "set (patternCounts (aggregate_repos D now rs)) =
         set (patternCounts (aggregate_repos D now' rs'))"
proof (rule set_eq_of_map_of_eq)
  let ?ps = "\<lambda>rs. concat (map patterns (filter (\<lambda>r. \<not> excluded r) rs))"
  have "mset (?ps rs) = mset (?ps rs')"
    using assms by (rule mset_concat_map_filter)
  then have "fold count_pattern_abs (?ps rs) = fold count_pattern_abs (?ps rs')"
    by (intro fold_multiset_equiv count_pattern_abs_commute)
  then show "map_of (patternCounts (aggregate_repos D now rs)) =
             map_of (patternCounts (aggregate_repos D now' rs'))"
    by (simp add: aggregate_repos_def patternCounts_fold map_of_fold_count_pattern
        aggregate_init_def)
  show "distinct (map fst (patternCounts (aggregate_repos D now rs)))"
    using agg_inv_aggregate_repos [of D now rs] by (simp add: agg_inv_def)
  show "distinct (map fst (patternCounts (aggregate_repos D now' rs')))"
    using agg_inv_aggregate_repos [of D now' rs'] by (simp add: agg_inv_def)
qed


subsection \<open>The profile as a function of the multiset of records\<close>

lemma process_languages_map:
  assumes "distinct (map fst lcs)"
  shows "process_languages n lcs = map (\<lambda>c. (fst c, language_skill n c)) lcs"
  unfolding process_languages_def
  using fold_obj_set_distinct [of fst lcs "[]" "language_skill n"] assms by simp

lemma framework_table_names_distinct:
  "distinct (map (\<lambda>e. fw_name (snd e)) FRAMEWORK_CATEGORIES)"
  by (simp add: FRAMEWORK_CATEGORIES_def fw_def)

lemma framework_names_distinct:
  assumes "fc_inv fcs" "distinct (map fst fcs)"
  shows "distinct (map (\<lambda>c. fw_name (fc_info (snd c))) fcs)"
proof -
  have inj_tab: "inj_on (\<lambda>e. fw_name (snd e)) (set FRAMEWORK_CATEGORIES)"
    using framework_table_names_distinct by (simp add: distinct_map)
  have inj_keys: "inj_on fst (set fcs)" and dist: "distinct fcs"
    using assms(2) by (simp_all add: distinct_map)
  have "inj_on (\<lambda>c. fw_name (fc_info (snd c))) (set fcs)"
  proof (rule inj_onI)
    fix c1 c2
    assume c: "c1 \<in> set fcs" "c2 \<in> set fcs"
      and eq: "fw_name (fc_info (snd c1)) = fw_name (fc_info (snd c2))"
    have m1: "(fst c1, fc_info (snd c1)) \<in> set FRAMEWORK_CATEGORIES"
      and m2: "(fst c2, fc_info (snd c2)) \<in> set FRAMEWORK_CATEGORIES"
      using assms(1) c by (auto simp: fc_inv_def intro: map_of_SomeD)
    have "(fst c1, fc_info (snd c1)) = (fst c2, fc_info (snd c2))"
      by (rule inj_onD [OF inj_tab _ m1 m2]) (simp add: eq)
    then have "fst c1 = fst c2" by simp
    then show "c1 = c2" by (rule inj_onD [OF inj_keys _ c])
  qed
  with dist show ?thesis by (simp add: distinct_map)
qed

lemma process_frameworks_map:
  assumes "fc_inv fcs" "distinct (map fst fcs)"
  shows "process_frameworks n fcs =
         map (\<lambda>c. (fw_name (fc_info (snd c)), framework_skill n c)) fcs"
  unfolding process_frameworks_def
  using fold_obj_set_distinct [of "\<lambda>c. fw_name (fc_info (snd c))" fcs "[]" "framework_skill n"]
    framework_names_distinct [OF assms]
  by simp

lemma prof_languages_eq:
  "prof_languages (buildSkillsProfile D now rs) =
   map (\<lambda>c. (fst c, language_skill (length rs) c)) (languageCounts (aggregate_repos D now rs))"
  using agg_inv_aggregate_repos [of D now rs]
  by (simp add: buildSkillsProfile_def Let_def process_languages_map agg_inv_def)

lemma prof_frameworks_eq:
  "prof_frameworks (buildSkillsProfile D now rs) =
   map (\<lambda>c. (fw_name (fc_info (snd c)), framework_skill (length rs) c))
     (frameworkCounts (aggregate_repos D now rs))"
  using agg_inv_aggregate_repos [of D now rs]
  by (simp add: buildSkillsProfile_def Let_def process_frameworks_map agg_inv_def)

lemma prof_languages_keys_distinct:
  "distinct (map fst (prof_languages (buildSkillsProfile D now rs)))"
proof -
  have "map fst (prof_languages (buildSkillsProfile D now rs)) =
        map fst (languageCounts (aggregate_repos D now rs))"
    by (simp add: prof_languages_eq comp_def)
  then show ?thesis
    using agg_inv_aggregate_repos [of D now rs] by (simp add: agg_inv_def)
qed

lemma prof_frameworks_keys_distinct:
  "distinct (map fst (prof_frameworks (buildSkillsProfile D now rs)))"
proof -
  have "map fst (prof_frameworks (buildSkillsProfile D now rs)) =
        map (\<lambda>c. fw_name (fc_info (snd c))) (frameworkCounts (aggregate_repos D now rs))"
    by (simp add: prof_frameworks_eq comp_def)
  then show ?thesis
    using agg_inv_aggregate_repos [of D now rs] framework_names_distinct
    by (simp add: agg_inv_def)
qed

lemma prof_languages_perm:
  assumes "mset rs = mset rs'"
  shows "set (prof_languages (buildSkillsProfile D now rs)) =
         set (prof_languages (buildSkillsProfile D now rs'))"
proof -
  have "length rs = length rs'"
    using assms by (rule mset_eq_length)
  then show ?thesis
    using languageCounts_perm [OF assms, of D now now]
    by (simp add: prof_languages_eq)
qed

lemma prof_frameworks_perm:
  assumes "mset rs = mset rs'"
  shows "set (prof_frameworks (buildSkillsProfile D now rs)) =
         set (prof_frameworks (buildSkillsProfile D now rs'))"
proof -
  have "length rs = length rs'"
    using assms by (rule mset_eq_length)
  then show ?thesis
    using frameworkCounts_perm [OF assms, of D now now]
    by (simp add: prof_frameworks_eq)
qed

lemma set_fold_add_pattern_domain:
  "set (fold add_pattern_domain ps acc) =
   set acc \<union> {d. \<exists>p \<in> set ps. map_of patternToDomain p = Some d}"
  by (induction ps arbitrary: acc)
     (auto simp: add_pattern_domain_def set_set_add split: option.splits)

lemma set_fold_add_framework_domain:
  "set (fold add_framework_domain fs acc) =
   set acc \<union> {d. \<exists>f \<in> set fs. map_of frameworkToDomain (fe_category f) = Some d}"
  by (induction fs arbitrary: acc)
     (auto simp: add_framework_domain_def set_set_add split: option.splits)

lemma set_deriveDomains:
  "set (deriveDomains pats fws) =
   {d. \<exists>p \<in> set pats. map_of patternToDomain p = Some d}
   \<union> {d. \<exists>f \<in> snd ` set fws. map_of frameworkToDomain (fe_category f) = Some d}"
  by (auto simp: deriveDomains_def set_fold_add_pattern_domain set_fold_add_framework_domain)

lemma prof_domains_perm:
  assumes "mset rs = mset rs'"
  shows "set (prof_domains (buildSkillsProfile D now rs)) =
         set (prof_domains (buildSkillsProfile D now rs'))"
proof -
  have pats: "fst ` set (patternCounts (aggregate_repos D now rs)) =
              fst ` set (patternCounts (aggregate_repos D now rs'))"
    using patternCounts_perm [OF assms, of D now now] by simp
  have fws: "set (prof_frameworks (buildSkillsProfile D now rs)) =
             set (prof_frameworks (buildSkillsProfile D now rs'))"
    using assms by (rule prof_frameworks_perm)
  have dom: "prof_domains (buildSkillsProfile D now ys) =
             deriveDomains (fold set_add (map fst (patternCounts (aggregate_repos D now ys))) [])
               (prof_frameworks (buildSkillsProfile D now ys))" for ys
    by (simp add: buildSkillsProfile_def Let_def)
  show ?thesis
    by (simp only: dom set_deriveDomains set_fold_set_add set_map pats fws)
qed

subsection \<open>The top lists\<close>

lemma map_sort_key: "map f (sort_key f xs) = sort (map f xs)"
  by (rule properties_for_sort [symmetric]) simp_all

lemma sort_desc_keys_perm:
  assumes "mset xs = mset ys"
  shows "map key (sort_desc key xs) = map key (sort_desc key ys)"
proof -
  let ?f = "\<lambda>x. - int (key x)"
  have "mset (map ?f xs) = mset (map ?f ys)"
    using assms by simp
  then have "sort (map ?f xs) = sort (map ?f ys)"
    by (metis sorted_list_of_multiset_mset)
  then have "map ?f (sort_key ?f xs) = map ?f (sort_key ?f ys)"
    by (simp only: map_sort_key)
  then have "map (\<lambda>i. nat (- i)) (map ?f (sort_key ?f xs)) =
             map (\<lambda>i. nat (- i)) (map ?f (sort_key ?f ys))"
    by (rule arg_cong)
  then show ?thesis
    by (simp add: sort_desc_def comp_def)
qed

lemma mset_eq_of_set_eq_keys:
  assumes "set xs = set ys" "distinct (map fst xs)" "distinct (map fst ys)"
  shows "mset xs = mset ys"
proof -
  have "distinct xs" "distinct ys"
    using assms(2,3) by (simp_all add: distinct_map)
  with assms(1) show ?thesis
    by (simp add: set_eq_iff_mset_eq_distinct)
qed

lemma topLanguages_counts_perm:
  assumes "mset rs = mset rs'"
  shows "map (\<lambda>e. le_repoCount (snd e)) (topLanguages (prof_summary (buildSkillsProfile D now rs))) =
         map (\<lambda>e. le_repoCount (snd e)) (topLanguages (prof_summary (buildSkillsProfile D now rs')))"
proof -
  let ?P = "\<lambda>e::string \<times> language_entry. le_level (snd e) = ''language''"
  have "mset (prof_languages (buildSkillsProfile D now rs)) =
        mset (prof_languages (buildSkillsProfile D now rs'))"
    by (rule mset_eq_of_set_eq_keys)
       (rule prof_languages_perm [OF assms], rule prof_languages_keys_distinct,
        rule prof_languages_keys_distinct)
  then have "mset (filter ?P (prof_languages (buildSkillsProfile D now rs))) =
             mset (filter ?P (prof_languages (buildSkillsProfile D now rs')))"
    by simp
  then have "map (\<lambda>e. le_repoCount (snd e))
               (sort_desc (\<lambda>e. le_repoCount (snd e)) (filter ?P (prof_languages (buildSkillsProfile D now rs)))) =
             map (\<lambda>e. le_repoCount (snd e))
               (sort_desc (\<lambda>e. le_repoCount (snd e)) (filter ?P (prof_languages (buildSkillsProfile D now rs'))))"
    by (rule sort_desc_keys_perm)
  moreover have "topLanguages (prof_summary (buildSkillsProfile D now ys)) =
      take 5 (sort_desc (\<lambda>e. le_repoCount (snd e)) (filter ?P (prof_languages (buildSkillsProfile D now ys))))" for ys
    by (simp add: buildSkillsProfile_def Let_def)
  ultimately show ?thesis
    by (simp only: take_map [symmetric])
qed

lemma topFrameworks_counts_perm:
  assumes "mset rs = mset rs'"
  shows "map (\<lambda>e. fe_repoCount (snd e)) (topFrameworks (prof_summary (buildSkillsProfile D now rs))) =
         map (\<lambda>e. fe_repoCount (snd e)) (topFrameworks (prof_summary (buildSkillsProfile D now rs')))"
proof -
  have "mset (prof_frameworks (buildSkillsProfile D now rs)) =
        mset (prof_frameworks (buildSkillsProfile D now rs'))"
    by (rule mset_eq_of_set_eq_keys)
       (rule prof_frameworks_perm [OF assms], rule prof_frameworks_keys_distinct,
        rule prof_frameworks_keys_distinct)
  then have "map (\<lambda>e. fe_repoCount (snd e))
               (sort_desc (\<lambda>e. fe_repoCount (snd e)) (prof_frameworks (buildSkillsProfile D now rs))) =
             map (\<lambda>e. fe_repoCount (snd e))
               (sort_desc (\<lambda>e. fe_repoCount (snd e)) (prof_frameworks (buildSkillsProfile D now rs')))"
    by (rule sort_desc_keys_perm)
  moreover have "topFrameworks (prof_summary (buildSkillsProfile D now ys)) =
      take 5 (sort_desc (\<lambda>e. fe_repoCount (snd e)) (prof_frameworks (buildSkillsProfile D now ys)))" for ys
    by (simp add: buildSkillsProfile_def Let_def)
  ultimately show ?thesis
    by (simp only: take_map [symmetric])
qed

subsection \<open>Concrete evaluation\<close>

lemma example_perm: "mset [repo_python, repo_go] = mset [repo_go, repo_python]"
  by (simp add: add_mset_commute)


lemma keys_differ: "map fst xs = ks \<Longrightarrow> map fst ys = ks' \<Longrightarrow> ks \<noteq> ks' \<Longrightarrow> xs \<noteq> ys"
  by auto

lemma lowered_languages:
  "map (\<lambda>e. (fst e, le_proficiency (snd e)))
     (prof_languages (buildSkillsProfile no_dates 0 [repo_python, repo_skipped, repo_go])) =
   [(''Python'', Advanced), (''Go'', Advanced)]"
  by code_simp

lemma unlowered_languages:
  "map (\<lambda>e. (fst e, le_proficiency (snd e)))
     (prof_languages (buildSkillsProfile no_dates 0 [repo_python, repo_go])) =
   [(''Python'', Expert), (''Go'', Expert)]"
  by code_simp

lemma excluded_repo_skipped: "excluded repo_skipped"
  by (simp add: repo_skipped_def)

section \<open>Properties of the matcher\<close>








subsection \<open>Concrete evaluation\<close>

lemma example_categories:
  "map (\<lambda>m. job_id (mr_job m)) (cat_want (categorizeMatches example_matches)) = [''acme-dev'']
   \<and> map (\<lambda>m. job_id (mr_job m)) (cat_qualified (categorizeMatches example_matches)) = []
   \<and> map (\<lambda>m. job_id (mr_job m)) (cat_stretch (categorizeMatches example_matches)) = [''globex-maintainer'']
   \<and> map (\<lambda>m. job_id (mr_job m)) (cat_filtered (categorizeMatches example_matches))
     = [''globex-maintainer'', ''initech-engineer'']"
  by code_simp

section \<open>Properties of the history extraction\<close>




lemma freshness_of_Some:
  "freshness_of (Some d) = (if d > 90 then Stale else if d > 30 then Aging else Fresh)"
  by (simp add: freshness_of_def)

section \<open>Properties of the job id\<close>




section \<open>Properties of the validation\<close>




section \<open>Properties of the ingestion\<close>





















section \<open>The claims about the profile builder\<close>



text \<open>
  Claim C8.  The summary counts every record of the input, excluded ones too, as
  \<open>totalRepos\<close>; every other aggregate (language, framework, pattern and tool counts,
  the commit total and the commit-date span) is what it is for the input without its
  excluded records.
\<close>

theorem C8_total_counts_excluded:
  "sum_totalRepos (prof_summary (buildSkillsProfile D now rs)) = length rs
   \<and> aggregate_repos D now rs = aggregate_repos D now (filter (\<lambda>r. \<not> excluded r) rs)
   \<and> sum_totalCommits (prof_summary (buildSkillsProfile D now rs)) =
       sum_totalCommits (prof_summary (buildSkillsProfile D now (filter (\<lambda>r. \<not> excluded r) rs)))
   \<and> yearsActive (prof_summary (buildSkillsProfile D now rs)) =
       yearsActive (prof_summary (buildSkillsProfile D now (filter (\<lambda>r. \<not> excluded r) rs)))
   \<and> prof_patterns (buildSkillsProfile D now rs) =
       prof_patterns (buildSkillsProfile D now (filter (\<lambda>r. \<not> excluded r) rs))
   \<and> prof_tools (buildSkillsProfile D now rs) =
       prof_tools (buildSkillsProfile D now (filter (\<lambda>r. \<not> excluded r) rs))"
proof -
  let ?rs' = "filter (\<lambda>r. \<not> excluded r) rs"
  have agg: "aggregate_repos D now rs = aggregate_repos D now ?rs'"
    by (rule aggregate_repos_filter)
  have agg': "aggregate_repos D now ?rs' = aggregate_repos D now rs"
    by (rule agg [symmetric])
  show ?thesis
    by (simp add: buildSkillsProfile_def Let_def agg')
qed

theorem C8_total_counts_excluded_witness:
  "sum_totalRepos (prof_summary (buildSkillsProfile no_dates 0 [repo_python, repo_skipped])) = 2
   \<and> aggregate_repos no_dates 0 [repo_python, repo_skipped] = aggregate_repos no_dates 0 [repo_python]
   \<and> prof_patterns (buildSkillsProfile no_dates 0 [repo_python, repo_skipped]) =
       prof_patterns (buildSkillsProfile no_dates 0 [repo_python])"
  using C8_total_counts_excluded [of no_dates 0 "[repo_python, repo_skipped]"]
  by (simp add: repo_python_def repo_skipped_def)

text \<open>
  Claim C10.  The tier of every language and framework entry of the built profile is
  computed with the length of the whole input as the denominator, excluded records
  counted; so putting one more excluded record into the input, at any place, leaves the
  entries and their repository counts as they are and raises no tier, and it can lower
  tiers: two included records give their languages one half each (expert), and with an
  excluded record between them one third each (advanced).
\<close>

theorem C10_excluded_in_denominator:
  "(\<forall>e \<in> set (prof_languages (buildSkillsProfile D now rs)).
      le_proficiency (snd e) = calculateProficiency (le_repoCount (snd e)) (length rs) 1)
   \<and> (\<forall>e \<in> set (prof_frameworks (buildSkillsProfile D now rs)).
        \<exists>info. map_of FRAMEWORK_CATEGORIES (fe_key (snd e)) = Some info
          \<and> fe_proficiency (snd e) =
              calculateProficiency (fe_repoCount (snd e)) (length rs) (fw_weight info))
   \<and> (excluded x \<longrightarrow>
        list_all2 (\<lambda>p q. fst p = fst q \<and>
            (le_repoCount (snd p) = le_repoCount (snd q)
             \<and> tier_rank (le_proficiency (snd p)) \<le> tier_rank (le_proficiency (snd q))))
          (prof_languages (buildSkillsProfile D now (rs1 @ x # rs2)))
          (prof_languages (buildSkillsProfile D now (rs1 @ rs2)))
        \<and> list_all2 (\<lambda>p q. fst p = fst q \<and>
            (fe_repoCount (snd p) = fe_repoCount (snd q)
             \<and> tier_rank (fe_proficiency (snd p)) \<le> tier_rank (fe_proficiency (snd q))))
          (prof_frameworks (buildSkillsProfile D now (rs1 @ x # rs2)))
          (prof_frameworks (buildSkillsProfile D now (rs1 @ rs2))))
   \<and> (excluded repo_skipped
        \<and> map (\<lambda>e. (fst e, le_proficiency (snd e)))
            (prof_languages (buildSkillsProfile no_dates 0 ([repo_python] @ repo_skipped # [repo_go]))) =
            [(''Python'', Advanced), (''Go'', Advanced)]
        \<and> map (\<lambda>e. (fst e, le_proficiency (snd e)))
            (prof_languages (buildSkillsProfile no_dates 0 ([repo_python] @ [repo_go]))) =
            [(''Python'', Expert), (''Go'', Expert)])"
  using languages_denominator [of _ D now rs] frameworks_denominator [of _ D now rs]
    languages_insert_excluded [of x D now rs1 rs2] frameworks_insert_excluded [of x D now rs1 rs2]
    lowered_languages unlowered_languages excluded_repo_skipped
  by (simp only: append_Cons append_Nil) blast

theorem C10_excluded_in_denominator_witness:
  "excluded repo_skipped
   \<and> (''Python'', \<lparr>le_fileCount = 3, le_repoCount = 1, le_proficiency = Advanced,
          le_level = ''language'', le_aliases = Some [''py'', ''python3''], le_parent = None\<rparr>)
       \<in> set (prof_languages (buildSkillsProfile no_dates 0 [repo_python, repo_skipped, repo_go]))
   \<and> Advanced = calculateProficiency 1 (length [repo_python, repo_skipped, repo_go]) 1
   \<and> list_all2 (\<lambda>p q. fst p = fst q \<and>
            (le_repoCount (snd p) = le_repoCount (snd q)
             \<and> tier_rank (le_proficiency (snd p)) \<le> tier_rank (le_proficiency (snd q))))
          (prof_languages (buildSkillsProfile no_dates 0 [repo_python, repo_skipped, repo_go]))
          (prof_languages (buildSkillsProfile no_dates 0 [repo_python, repo_go]))"
proof -
  let ?e = "(''Python'', \<lparr>le_fileCount = 3, le_repoCount = 1, le_proficiency = Advanced,
          le_level = ''language'', le_aliases = Some [''py'', ''python3''], le_parent = None\<rparr>)"
  have k: "prof_languages (buildSkillsProfile no_dates 0 [repo_python, repo_skipped, repo_go]) =
       [?e, (''Go'', \<lparr>le_fileCount = 2, le_repoCount = 1, le_proficiency = Advanced,
          le_level = ''language'', le_aliases = Some [''golang''], le_parent = None\<rparr>)]"
    by code_simp
  have m: "?e \<in> set (prof_languages (buildSkillsProfile no_dates 0 [repo_python, repo_skipped, repo_go]))"
    by (simp only: k list.set insertI1)
  have x: "excluded repo_skipped" by (simp add: repo_skipped_def)
  have "le_proficiency (snd ?e) =
          calculateProficiency (le_repoCount (snd ?e)) (length [repo_python, repo_skipped, repo_go]) 1"
    using m C10_excluded_in_denominator [of no_dates 0 "[repo_python, repo_skipped, repo_go]" repo_skipped "[]" "[]"]
    by blast
  then have a: "Advanced = calculateProficiency 1 (length [repo_python, repo_skipped, repo_go]) 1"
    by simp
  have b: "list_all2 (\<lambda>p q. fst p = fst q \<and>
            (le_repoCount (snd p) = le_repoCount (snd q)
             \<and> tier_rank (le_proficiency (snd p)) \<le> tier_rank (le_proficiency (snd q))))
          (prof_languages (buildSkillsProfile no_dates 0 [repo_python, repo_skipped, repo_go]))
          (prof_languages (buildSkillsProfile no_dates 0 [repo_python, repo_go]))"
    using x C10_excluded_in_denominator [of no_dates 0 "[]" repo_skipped "[repo_python]" "[repo_go]"]
    by simp
  show ?thesis using m x a b by blast
qed

text \<open>
  Claim C4, as amended.  For every collection of records and every permutation of it, the
  profile has the same language entries, the same framework entries and the same domain
  labels up to order (equal as sets, keys distinct), and the repository counts listed by
  the top languages and by the top frameworks are the same sequences.  The order of the
  keys, and the order and choice among entries of equal count in the top lists, follow
  the order of the records.
\<close>

theorem C4_profile_up_to_order:
  assumes "mset rs = mset rs'"
  shows "set (prof_languages (buildSkillsProfile D now rs)) =
           set (prof_languages (buildSkillsProfile D now rs'))
       \<and> distinct (map fst (prof_languages (buildSkillsProfile D now rs)))
       \<and> set (prof_frameworks (buildSkillsProfile D now rs)) =
           set (prof_frameworks (buildSkillsProfile D now rs'))
       \<and> distinct (map fst (prof_frameworks (buildSkillsProfile D now rs)))
       \<and> set (prof_domains (buildSkillsProfile D now rs)) =
           set (prof_domains (buildSkillsProfile D now rs'))
       \<and> map (\<lambda>e. le_repoCount (snd e)) (topLanguages (prof_summary (buildSkillsProfile D now rs))) =
           map (\<lambda>e. le_repoCount (snd e)) (topLanguages (prof_summary (buildSkillsProfile D now rs')))
       \<and> map (\<lambda>e. fe_repoCount (snd e)) (topFrameworks (prof_summary (buildSkillsProfile D now rs))) =
           map (\<lambda>e. fe_repoCount (snd e)) (topFrameworks (prof_summary (buildSkillsProfile D now rs')))"
  using prof_languages_perm [OF assms] prof_frameworks_perm [OF assms] prof_domains_perm [OF assms]
    topLanguages_counts_perm [OF assms] topFrameworks_counts_perm [OF assms]
    prof_languages_keys_distinct prof_frameworks_keys_distinct
  by blast

theorem C4_profile_up_to_order_witness:
  "mset [repo_python, repo_go] = mset [repo_go, repo_python]
   \<and> set (prof_languages (buildSkillsProfile no_dates 0 [repo_python, repo_go])) =
       set (prof_languages (buildSkillsProfile no_dates 0 [repo_go, repo_python]))
   \<and> set (prof_domains (buildSkillsProfile no_dates 0 [repo_python, repo_go])) =
        set (prof_domains (buildSkillsProfile no_dates 0 [repo_go, repo_python]))"
  using example_perm C4_profile_up_to_order [OF example_perm, of no_dates 0] by blast

text \<open>
  The claim as stated fails: exchanging two records exchanges the keys of the languages
  and of the frameworks, and the entries of both top lists.
\<close>

theorem C4_key_order_counterexample:
  "mset [repo_python, repo_go] = mset [repo_go, repo_python]
   \<and> prof_languages (buildSkillsProfile no_dates 0 [repo_python, repo_go])
       \<noteq> prof_languages (buildSkillsProfile no_dates 0 [repo_go, repo_python])
   \<and> prof_frameworks (buildSkillsProfile no_dates 0 [repo_python, repo_go])
       \<noteq> prof_frameworks (buildSkillsProfile no_dates 0 [repo_go, repo_python])
   \<and> topLanguages (prof_summary (buildSkillsProfile no_dates 0 [repo_python, repo_go]))
       \<noteq> topLanguages (prof_summary (buildSkillsProfile no_dates 0 [repo_go, repo_python]))
   \<and> topFrameworks (prof_summary (buildSkillsProfile no_dates 0 [repo_python, repo_go]))
       \<noteq> topFrameworks (prof_summary (buildSkillsProfile no_dates 0 [repo_go, repo_python]))"
proof (intro conjI)
  show "mset [repo_python, repo_go] = mset [repo_go, repo_python]"
    by (rule example_perm)
  have l1: "map fst (prof_languages (buildSkillsProfile no_dates 0 [repo_python, repo_go])) = [''Python'', ''Go'']"
    by code_simp
  have l2: "map fst (prof_languages (buildSkillsProfile no_dates 0 [repo_go, repo_python])) = [''Go'', ''Python'']"
    by code_simp
  show "prof_languages (buildSkillsProfile no_dates 0 [repo_python, repo_go])
       \<noteq> prof_languages (buildSkillsProfile no_dates 0 [repo_go, repo_python])"
    by (rule keys_differ [OF l1 l2]) simp
  have f1: "map fst (prof_frameworks (buildSkillsProfile no_dates 0 [repo_python, repo_go])) = [''Docker'', ''React'']"
    by code_simp
  have f2: "map fst (prof_frameworks (buildSkillsProfile no_dates 0 [repo_go, repo_python])) = [''React'', ''Docker'']"
    by code_simp
  show "prof_frameworks (buildSkillsProfile no_dates 0 [repo_python, repo_go])
       \<noteq> prof_frameworks (buildSkillsProfile no_dates 0 [repo_go, repo_python])"
    by (rule keys_differ [OF f1 f2]) simp
  have t1: "map fst (topLanguages (prof_summary (buildSkillsProfile no_dates 0 [repo_python, repo_go]))) = [''Python'', ''Go'']"
    by code_simp
  have t2: "map fst (topLanguages (prof_summary (buildSkillsProfile no_dates 0 [repo_go, repo_python]))) = [''Go'', ''Python'']"
    by code_simp
  show "topLanguages (prof_summary (buildSkillsProfile no_dates 0 [repo_python, repo_go]))
       \<noteq> topLanguages (prof_summary (buildSkillsProfile no_dates 0 [repo_go, repo_python]))"
    by (rule keys_differ [OF t1 t2]) simp
  have u1: "map fst (topFrameworks (prof_summary (buildSkillsProfile no_dates 0 [repo_python, repo_go]))) = [''Docker'', ''React'']"
    by code_simp
  have u2: "map fst (topFrameworks (prof_summary (buildSkillsProfile no_dates 0 [repo_go, repo_python]))) = [''React'', ''Docker'']"
    by code_simp
  show "topFrameworks (prof_summary (buildSkillsProfile no_dates 0 [repo_python, repo_go]))
       \<noteq> topFrameworks (prof_summary (buildSkillsProfile no_dates 0 [repo_go, repo_python]))"
    by (rule keys_differ [OF u1 u2]) simp
qed

section \<open>The claims about the matcher\<close>




text \<open>
  Claim C6.  For every list of match results, the buckets want, qualified and stretch are
  pairwise disjoint, and a result of the list is in the bucket filtered if and only if its
  location does not match or it has an avoided skill.
\<close>

theorem C6_categories:
  "set (cat_want (categorizeMatches ms)) \<inter> set (cat_qualified (categorizeMatches ms)) = {}
   \<and> set (cat_want (categorizeMatches ms)) \<inter> set (cat_stretch (categorizeMatches ms)) = {}
   \<and> set (cat_qualified (categorizeMatches ms)) \<inter> set (cat_stretch (categorizeMatches ms)) = {}
   \<and> (\<forall>m \<in> set ms.
        m \<in> set (cat_filtered (categorizeMatches ms)) \<longleftrightarrow> \<not> locationMatch m \<or> hasAvoid m)
   \<and> set (cat_filtered (categorizeMatches ms)) \<subseteq> set ms"
  by (auto simp: categorizeMatches_def)

theorem C6_categories_witness:
  "set (cat_want (categorizeMatches example_matches))
     \<inter> set (cat_stretch (categorizeMatches example_matches)) = {}
   \<and> map (\<lambda>m. job_id (mr_job m)) (cat_want (categorizeMatches example_matches)) = [''acme-dev'']
   \<and> map (\<lambda>m. job_id (mr_job m)) (cat_stretch (categorizeMatches example_matches)) = [''globex-maintainer'']
   \<and> map (\<lambda>m. job_id (mr_job m)) (cat_filtered (categorizeMatches example_matches))
       = [''globex-maintainer'', ''initech-engineer'']"
  using C6_categories [of example_matches] example_categories by blast

section \<open>The claim about the history extraction\<close>




section \<open>The claims about job ingestion\<close>










end
